theory Spec2Isabelle
  imports Complex_Main
begin

section \<open>Python values shared by both programs\<close>

text \<open>
  Python \<open>str\<close> values are modelled as \<open>string\<close> (lists of 8-bit code points) and
  \<open>bytes\<close> as lists of characters. An uncaught Python exception is a value of \<open>exn\<close>.
\<close>

type_synonym bytes = "char list"

datatype exn =
    FileNotFoundError string
  | KeyError string
  | IndexError
  | ValueError string
  | CollaboratorError string

text \<open>
  \<open>str.isspace\<close> on the code points below 256: TAB..CR, FS..US, space, NEL and NBSP.
  \<open>str.strip()\<close> removes leading and trailing whitespace.
\<close>

definition py_isspace :: "char \<Rightarrow> bool" where
  "py_isspace c =
     (let n = (of_char c :: nat)
      in (9 \<le> n \<and> n \<le> 13) \<or> (28 \<le> n \<and> n \<le> 32) \<or> n = 133 \<or> n = 160)"

definition py_strip :: "string \<Rightarrow> string" where
  "py_strip s = rev (dropWhile py_isspace (rev (dropWhile py_isspace s)))"

definition newline :: string where
  "newline = [CHR 0x0A]"

text \<open>\<open>s.startswith(p)\<close>.\<close>

definition startswith :: "string \<Rightarrow> string \<Rightarrow> bool" where
  "startswith s p = (take (length p) s = p)"


section \<open>Query Service (src/flask\_server/app.py)\<close>

subsection \<open>Data\<close>

text \<open>
  One entry of the persisted top-n file \<open>nbest.json\<close>: \<open>{"text": .., "probability": ..}\<close>.
  The probability is a Python float; floats are kept abstract (type \<open>'f\<close>) and the three
  float operations the handler applies to them are parameters of the model.
\<close>

record 'f nbest_entry =
  cand_text :: string
  cand_probability :: 'f

text \<open>One element of the JSON array returned by \<open>/contracts\<close>.\<close>

record answer_candidate =
  answer :: string
  probability :: string
  analyse :: string

text \<open>One entry of \<open>responses.json\<close>: \<open>{"question": .., "answer": ..}\<close>.\<close>

record stored_qa =
  question :: string
  stored_answer :: string

text \<open>
  Calls that leave the handler: to the PDF library, the QA inference collaborator, the
  polarity classifier, the paraphraser, and \<open>open\<close> on a named file.
\<close>

datatype event =
    PdfOpen bytes
  | RunPrediction "string list" string string nat
  | OpenFile string
  | Polarity string
  | Paraphrase string

text \<open>
  The world a handler runs in: the three files the service touches (\<open>None\<close> when the
  file does not exist) and the log of outgoing calls, oldest first.
\<close>

record 'f world =
  questions_short_txt :: "string list option"
  nbest_json :: "(string \<rightharpoonup> 'f nbest_entry list) option"
  responses_json :: "stored_qa list option"
  calls :: "event list"

definition call :: "event \<Rightarrow> 'f world \<Rightarrow> 'f world" where
  "call e w = w\<lparr>calls := calls w @ [e]\<rparr>"

text \<open>
  The external collaborators, as parameters.
  \<^item> \<open>pdfplumber_pages b\<close>: the whole \<open>try\<close> block around \<open>pdfplumber.open\<close>: \<open>Inl msg\<close> when
    an \<open>Exception\<close> with \<open>str(e) = msg\<close> is raised, otherwise the result of
    \<open>extract_text()\<close> for each page (\<open>None\<close> or a string).
  \<^item> \<open>run_prediction\<close>: raises, or returns the predictions dict and persists the top-n
    candidates, which become the content of \<open>nbest.json\<close>.
  \<^item> \<open>polarity t\<close>: \<open>TextBlob(t).sentiment.polarity\<close>.
  \<^item> \<open>float_mul\<close>, \<open>float_round\<close>, \<open>float_str\<close>: Python's \<open>x * n\<close>, \<open>round(x, n)\<close> and
    the formatting of a float inside an f-string.
\<close>

record ('f, 'r) externals =
  pdfplumber_pages :: "bytes \<Rightarrow> string + string option list"
  run_prediction :: "string list \<Rightarrow> string \<Rightarrow> string \<Rightarrow> nat \<Rightarrow>
                     exn + ((string \<rightharpoonup> string) \<times> (string \<rightharpoonup> 'f nbest_entry list))"
  polarity :: "string \<Rightarrow> real"
  paraphrase :: "string \<Rightarrow> exn + 'r"
  float_mul :: "'f \<Rightarrow> int \<Rightarrow> 'f"
  float_round :: "'f \<Rightarrow> int \<Rightarrow> 'f"
  float_str :: "'f \<Rightarrow> string"

text \<open>
  What a handler gives back: a JSON body with an HTTP status, or an exception that no
  handler catches.
\<close>

datatype 'r body =
    JError string
  | JErrorDetails string string
  | JAnswers "answer_candidate list"
  | JStrings "string list"
  | JString string
  | JResult 'r

datatype 'r response = Response "'r body" nat | Unhandled exn

record contract_request =
  files_file :: "bytes option"
  form_question :: "string option"

datatype request =
    GetQuestionsShort
  | PostContracts contract_request
  | GetParaphrase string
  | PostGetResponse "string option"

text \<open>State of the running process: the module-level global \<open>questions_short\<close>.\<close>

record app =
  questions_short :: "string list"

subsection \<open>Process start\<close>

definition load_questions_short :: "'f world \<Rightarrow> (exn + string list) \<times> 'f world" where
  "load_questions_short w =
     (let w1 = call (OpenFile ''data/questions_short.txt'') w in
      case questions_short_txt w1 of
        None \<Rightarrow> (Inl (FileNotFoundError ''data/questions_short.txt''), w1)
      | Some lines \<Rightarrow> (Inr (map py_strip lines), w1))"

definition boot :: "'f world \<Rightarrow> (exn + app) \<times> 'f world" where
  "boot w =
     (case load_questions_short w of
        (Inl e, w1) \<Rightarrow> (Inl e, w1)
      | (Inr qs, w1) \<Rightarrow> (Inr \<lparr>questions_short = qs\<rparr>, w1))"

definition getQuestionsShort :: "app \<Rightarrow> 'f world \<Rightarrow> 'r response \<times> 'f world" where
  "getQuestionsShort a w = (Response (JStrings (questions_short a)) 200, w)"

subsection \<open>Sentiment analysis\<close>

definition getContractAnalysis ::
  "('f, 'r) externals \<Rightarrow> string \<Rightarrow> 'f world \<Rightarrow> string \<times> 'f world" where
  "getContractAnalysis X selected_response w =
     (if selected_response = '''' then (''No answer found in document'', w)
      else
        let w1 = call (Polarity selected_response) w;
            p = polarity X selected_response
        in if p > 0 then (''Positive'', w1)
           else if p < 0 then (''Negative'', w1)
           else (''Neutral'', w1))"

subsection \<open>The contract QA handler\<close>

text \<open>The page loop: \<open>if txt: pdf_text += txt + "\n"\<close>.\<close>

fun extract_pages :: "string \<Rightarrow> string option list \<Rightarrow> string" where
  "extract_pages pdf_text [] = pdf_text"
| "extract_pages pdf_text (None # pages) = extract_pages pdf_text pages"
| "extract_pages pdf_text (Some txt # pages) =
     (if txt = '''' then extract_pages pdf_text pages
      else extract_pages (pdf_text @ txt @ newline) pages)"

definition format_probability :: "('f, 'r) externals \<Rightarrow> 'f \<Rightarrow> string" where
  "format_probability X p = float_str X (float_round X (float_mul X p 100) 1) @ ''%''"

text \<open>
  The loop \<open>for i in range(5)\<close> over the list \<open>data['0']\<close>; an index past its end raises
  \<open>IndexError\<close> while the dict literal's first value is evaluated.
\<close>

fun answers_loop ::
  "('f, 'r) externals \<Rightarrow> 'f nbest_entry list \<Rightarrow> nat list \<Rightarrow> answer_candidate list \<Rightarrow>
   'f world \<Rightarrow> (exn + answer_candidate list) \<times> 'f world" where
  "answers_loop X cs [] answers w = (Inr answers, w)"
| "answers_loop X cs (i # is) answers w =
     (if i < length cs then
        (case getContractAnalysis X (cand_text (cs ! i)) w of
           (a, w1) \<Rightarrow>
             answers_loop X cs is
               (answers @ [\<lparr>answer = cand_text (cs ! i),
                            probability = format_probability X (cand_probability (cs ! i)),
                            analyse = a\<rparr>]) w1)
      else (Inl IndexError, w))"

definition sentinel :: answer_candidate where
  "sentinel = \<lparr>answer = ''No answer found in document'', probability = '''',
                analyse = ''Neutral''\<rparr>"

definition getContractResponse ::
  "('f, 'r) externals \<Rightarrow> contract_request \<Rightarrow> 'f world \<Rightarrow> 'r response \<times> 'f world" where
  "getContractResponse X req w =
     (case files_file req of
        None \<Rightarrow> (Response (JError ''No file uploaded'') 400, w)
      | Some file_bytes \<Rightarrow>
         (let qu = (case form_question req of None \<Rightarrow> '''' | Some q \<Rightarrow> q);
              w1 = call (PdfOpen file_bytes) w
          in (case pdfplumber_pages X file_bytes of
                Inl e \<Rightarrow> (Response (JErrorDetails ''Error reading PDF'' e) 500, w1)
              | Inr pages \<Rightarrow>
                 (let paragraph = py_strip (extract_pages '''' pages)
                  in (if paragraph = '''' \<or> qu = ''''
                      then (Response (JError ''Need both PDF and question'') 400, w1)
                      else
                       (let w2 = call (RunPrediction [qu] paragraph
                                         ''marshmellow77/roberta-base-cuad'' 5) w1
                        in (case run_prediction X [qu] paragraph
                                   ''marshmellow77/roberta-base-cuad'' 5 of
                              Inl e \<Rightarrow> (Unhandled e, w2)
                            | Inr (predictions, nbest) \<Rightarrow>
                               (let w3 = w2\<lparr>nbest_json := Some nbest\<rparr>
                                in (case predictions ''0'' of
                                      None \<Rightarrow> (Unhandled (KeyError ''0''), w3)
                                    | Some top_answer \<Rightarrow>
                                       (if top_answer = ''''
                                        then (Response (JAnswers [sentinel]) 200, w3)
                                        else
                                         (let w4 = call (OpenFile ''nbest.json'') w3
                                          in (case nbest_json w4 of
                                                None \<Rightarrow>
                                                  (Unhandled (FileNotFoundError ''nbest.json''), w4)
                                              | Some data \<Rightarrow>
                                                 (case data ''0'' of
                                                    None \<Rightarrow> (Unhandled (KeyError ''0''), w4)
                                                  | Some cs \<Rightarrow>
                                                     (case answers_loop X cs [0..<5] [] w4 of
                                                        (Inl e, w5) \<Rightarrow> (Unhandled e, w5)
                                                      | (Inr answers, w5) \<Rightarrow>
                                                          (Response (JAnswers answers) 200,
                                                           w5)))))))))))))))"

subsection \<open>Paraphraser\<close>

definition getContractParaphrase ::
  "('f, 'r) externals \<Rightarrow> string \<Rightarrow> 'f world \<Rightarrow> 'r response \<times> 'f world" where
  "getContractParaphrase X selected_response w =
     (if selected_response = ''''
      then (Response (JStrings [''No answer found in document'']) 200, w)
      else
        let w1 = call (Paraphrase selected_response) w
        in case paraphrase X selected_response of
             Inl e \<Rightarrow> (Unhandled e, w1)
           | Inr r \<Rightarrow> (Response (JResult r) 200, w1))"

subsection \<open>Stored Q and A\<close>

text \<open>The loop \<open>for entry in responses\<close> with its early return.\<close>

fun scan_responses :: "stored_qa list \<Rightarrow> string \<Rightarrow> string" where
  "scan_responses [] q = ''Response not found''"
| "scan_responses (entry # responses) q =
     (if question entry = q then stored_answer entry else scan_responses responses q)"

definition get_response :: "string option \<Rightarrow> 'f world \<Rightarrow> 'r response \<times> 'f world" where
  "get_response form_selected_response w =
     (let q = (case form_selected_response of None \<Rightarrow> '''' | Some s \<Rightarrow> s);
          w1 = call (OpenFile ''responses.json'') w
      in case responses_json w1 of
           None \<Rightarrow> (Unhandled (FileNotFoundError ''responses.json''), w1)
         | Some responses \<Rightarrow> (Response (JString (scan_responses responses q)) 200, w1))"

subsection \<open>Routing\<close>

definition handle ::
  "('f, 'r) externals \<Rightarrow> app \<Rightarrow> request \<Rightarrow> 'f world \<Rightarrow> 'r response \<times> 'f world" where
  "handle X a r w =
     (case r of
        GetQuestionsShort \<Rightarrow> getQuestionsShort a w
      | PostContracts req \<Rightarrow> getContractResponse X req w
      | GetParaphrase s \<Rightarrow> getContractParaphrase X s w
      | PostGetResponse f \<Rightarrow> get_response f w)"

text \<open>A process serving a sequence of requests, one after the other.\<close>

fun serve ::
  "('f, 'r) externals \<Rightarrow> app \<Rightarrow> request list \<Rightarrow> 'f world \<Rightarrow> 'r response list \<times> 'f world" where
  "serve X a [] w = ([], w)"
| "serve X a (r # rs) w =
     (case handle X a r w of
        (resp, w1) \<Rightarrow> (case serve X a rs w1 of (resps, w2) \<Rightarrow> (resp # resps, w2)))"


section \<open>Interactive Assistant (src/main.py)\<close>

subsection \<open>Data\<close>

text \<open>One conversation turn, \<open>{"role": .., "content": ..}\<close>.\<close>

record message =
  role :: string
  content :: string

text \<open>
  \<open>st.session_state\<close>. Both keys are set (to the empty string and the empty list) before
  anything reads them, so a fresh session is the state \<open>fresh\<close>.
\<close>

record session =
  doc_text :: string
  messages :: "message list"

definition fresh :: session where
  "fresh = \<lparr>doc_text = '''', messages = []\<rparr>"

text \<open>The file in the uploader widget: \<open>uploaded_file.type\<close> and \<open>getvalue()\<close>.\<close>

record uploaded =
  mime :: string
  file_bytes :: bytes

text \<open>
  What one run of the script is given: the sidebar widgets, the two fallbacks for the API
  key (\<open>st.secrets.get\<close>, \<open>os.environ.get\<close>), the uploader, whether the summary button
  was clicked, and the value of \<open>st.chat_input\<close>.
\<close>

record inputs =
  user_key :: string
  secrets_key :: "string option"
  env_key :: "string option"
  selected_model :: string
  uploaded_file :: "uploaded option"
  summary_clicked :: bool
  chat_input :: "string option"

text \<open>
  The argument of \<open>generate_content\<close>: the multimodal summary prompt (instruction, MIME
  type, inline data) or a chat history of (role, parts) pairs.
\<close>

datatype contents =
    Prompt string string "string option"
  | History "(string \<times> string list) list"

text \<open>
  What a run shows or calls, in order: the banners and one event per request to the
  generative API (model name, system instruction, maximum output tokens, temperature,
  contents).
\<close>

datatype ui_event =
    StError string
  | StWarning string
  | StSuccess string
  | GenerateContent string "string option" nat real contents

text \<open>
  The external collaborators of the assistant, as parameters: the text of every page of a
  PDF (\<open>PdfReader\<close> and \<open>extract_text\<close>), \<open>Image.open\<close>, base64 encoding, and the
  generative API call followed by \<open>response.text\<close>.
\<close>

record services =
  pdf_reader_pages :: "bytes \<Rightarrow> exn + string list"
  image_open :: "bytes \<Rightarrow> exn + unit"
  b64encode :: "bytes \<Rightarrow> string"
  generate_content :: "string \<Rightarrow> string option \<Rightarrow> nat \<Rightarrow> real \<Rightarrow> contents \<Rightarrow> exn + string"

text \<open>
  How a run of the script ends: at its last line, at \<open>st.stop()\<close>, at \<open>st.rerun()\<close>, or
  with an uncaught exception. Changes made to the session before the end are kept.
\<close>

datatype outcome = Completed | Stopped | Rerun | Crashed exn

subsection \<open>Generation functions\<close>

definition generate_completion ::
  "services \<Rightarrow> contents \<Rightarrow> string \<Rightarrow> nat \<Rightarrow> real \<Rightarrow> (exn + string) \<times> ui_event list" where
  "generate_completion S prompt_content model max_tokens temperature =
     (if startswith model ''gemini''
      then (generate_content S model None max_tokens temperature prompt_content,
            [GenerateContent model None max_tokens temperature prompt_content])
      else (Inl (ValueError (''Unsupported model: '' @ model)), []))"

definition gemini_role :: "message \<Rightarrow> string \<times> string list" where
  "gemini_role msg = (if role msg = ''assistant'' then ''model'' else ''user'', [content msg])"

definition generate_chat_response ::
  "services \<Rightarrow> message list \<Rightarrow> string \<Rightarrow> nat \<Rightarrow> real \<Rightarrow> (exn + string) \<times> ui_event list" where
  "generate_chat_response S full_messages model max_tokens temperature =
     (if startswith model ''gemini''
      then
        (let (system_prompt, messages_for_history) =
               (case full_messages of
                  [] \<Rightarrow> ('''', full_messages)
                | m # rest \<Rightarrow>
                    (if role m = ''system'' then (content m, rest) else ('''', full_messages)));
             gemini_history = map gemini_role messages_for_history
         in (generate_content S model (Some system_prompt) max_tokens temperature
               (History gemini_history),
             [GenerateContent model (Some system_prompt) max_tokens temperature
                (History gemini_history)]))
      else (Inl (ValueError (''Unsupported model: '' @ model)), []))"

subsection \<open>The uploader column\<close>

definition process_upload ::
  "services \<Rightarrow> uploaded \<Rightarrow> session \<Rightarrow> (exn + unit) \<times> session \<times> ui_event list" where
  "process_upload S u s =
     (if mime u = ''application/pdf''
      then (case pdf_reader_pages S (file_bytes u) of
              Inl e \<Rightarrow> (Inl e, s, [])
            | Inr pages \<Rightarrow>
                (Inr (),
                 s\<lparr>doc_text := py_strip (concat (map (\<lambda>t. t @ newline) pages))\<rparr>,
                 [StSuccess ''PDF text extracted successfully!'']))
      else (case image_open S (file_bytes u) of
              Inl e \<Rightarrow> (Inl e, s, [])
            | Inr _ \<Rightarrow>
                (Inr (),
                 s\<lparr>doc_text := ''Image document uploaded''\<rparr>,
                 [StSuccess ''Image uploaded successfully!''])))"

definition summary_prompt :: "services \<Rightarrow> uploaded \<Rightarrow> contents" where
  "summary_prompt S u =
     (if mime u = ''application/pdf'' \<and> b64encode S (file_bytes u) \<noteq> ''''
      then Prompt
             (''You are a legal expert. Provide a concise, accurate summary of the following '' @
              ''document. Highlight key clauses, parties involved, main obligations, and '' @
              ''potential risks.'')
             ''application/pdf'' (Some (b64encode S (file_bytes u)))
      else Prompt
             (''You are a legal expert. Provide a concise, accurate summary of the following '' @
              ''image document. Highlight key clauses, parties involved, main obligations, '' @
              ''and potential risks.'')
             (if mime u = ''image/png'' then ''image/png'' else ''image/jpeg'')
             (if mime u = ''application/pdf'' then None
              else Some (b64encode S (file_bytes u))))"

definition summary_message :: "string \<Rightarrow> message" where
  "summary_message summary =
     \<lparr>role = ''assistant'', content = ''**Document Summary:**'' @ newline @ summary\<rparr>"

definition left_col :: "services \<Rightarrow> inputs \<Rightarrow> session \<Rightarrow> outcome \<times> session \<times> ui_event list" where
  "left_col S inp s =
     (case uploaded_file inp of
        None \<Rightarrow> (Completed, s, [])
      | Some u \<Rightarrow>
         (case process_upload S u s of
            (Inl e, s1, t1) \<Rightarrow> (Crashed e, s1, t1)
          | (Inr _, s1, t1) \<Rightarrow>
             (if summary_clicked inp
              then (case generate_completion S (summary_prompt S u) (selected_model inp)
                           8000 (3 / 10) of
                      (Inl e, t2) \<Rightarrow> (Crashed e, s1, t1 @ t2)
                    | (Inr summary, t2) \<Rightarrow>
                       (if summary \<noteq> ''''
                        then (Rerun, s1\<lparr>messages := [summary_message summary]\<rparr>, t1 @ t2)
                        else (Completed, s1, t1 @ t2)))
              else (Completed, s1, t1))))"

subsection \<open>The chat column\<close>

definition system_prompt_text :: string where
  "system_prompt_text =
     ''You are a helpful legal AI assistant. The first message you received was a summary '' @
     ''of a legal document. Answer the user'' @ [CHR 0x27] @ ''s follow-up questions''"

definition chat_input_handler ::
  "services \<Rightarrow> string \<Rightarrow> string option \<Rightarrow> session \<Rightarrow> outcome \<times> session \<times> ui_event list" where
  "chat_input_handler S model prompt s =
     (case prompt of
        None \<Rightarrow> (Completed, s, [])
      | Some p \<Rightarrow>
         (if p = '''' then (Completed, s, [])
          else if doc_text s = ''''
          then (Completed, s, [StWarning ''Please upload and summarize a document first.''])
          else
           (let s1 = s\<lparr>messages := messages s @ [\<lparr>role = ''user'', content = p\<rparr>]\<rparr>;
                messages_for_api =
                  \<lparr>role = ''system'', content = system_prompt_text\<rparr> # messages s1
            in (case generate_chat_response S messages_for_api model 8000 (1 / 2) of
                  (Inl e, t) \<Rightarrow> (Crashed e, s1, t)
                | (Inr ai_response, t) \<Rightarrow>
                   (if ai_response \<noteq> ''''
                    then (Completed,
                          s1\<lparr>messages :=
                                messages s1 @ [\<lparr>role = ''assistant'', content = ai_response\<rparr>]\<rparr>,
                          t)
                    else (Completed, s1, t))))))"

subsection \<open>One run of the script, and a session\<close>

text \<open>\<open>a or b\<close> on optional strings: the first operand when it is truthy.\<close>

definition py_or :: "string option \<Rightarrow> string option \<Rightarrow> string option" where
  "py_or a b = (case a of None \<Rightarrow> b | Some k \<Rightarrow> (if k = '''' then b else Some k))"

text \<open>
  \<open>api_key = user_key if user_key else st.secrets.get(..) or os.environ.get(..)\<close>
\<close>

definition api_key :: "inputs \<Rightarrow> string option" where
  "api_key inp =
     (if user_key inp \<noteq> '''' then Some (user_key inp)
      else py_or (secrets_key inp) (env_key inp))"

definition script_run :: "services \<Rightarrow> inputs \<Rightarrow> session \<Rightarrow> outcome \<times> session \<times> ui_event list" where
  "script_run S inp s =
     (if api_key inp = None \<or> api_key inp = Some ''''
      then (Stopped, s,
            [StError (''No Gemini API key found. Please provide one in the sidebar or '' @
                      ''set GEMINI_API_KEY in secrets/env.'')])
      else (case left_col S inp s of
              (Completed, s1, t1) \<Rightarrow>
                (case chat_input_handler S (selected_model inp) (chat_input inp) s1 of
                   (out, s2, t2) \<Rightarrow> (out, s2, t1 @ t2))
            | (out, s1, t1) \<Rightarrow> (out, s1, t1)))"

text \<open>
  One user interaction: the script runs, and after \<open>st.rerun()\<close> it runs once more with
  the button and the chat input back to their idle values.
\<close>

definition interact :: "services \<Rightarrow> inputs \<Rightarrow> session \<Rightarrow> outcome \<times> session \<times> ui_event list" where
  "interact S inp s =
     (case script_run S inp s of
        (Rerun, s1, t1) \<Rightarrow>
          (case script_run S (inp\<lparr>summary_clicked := False, chat_input := None\<rparr>) s1 of
             (out, s2, t2) \<Rightarrow> (out, s2, t1 @ t2))
      | (out, s1, t1) \<Rightarrow> (out, s1, t1))"

text \<open>The session after a sequence of interactions.\<close>

fun session_after :: "services \<Rightarrow> inputs list \<Rightarrow> session \<Rightarrow> session" where
  "session_after S [] s = s"
| "session_after S (inp # inps) s =
     (case interact S inp s of (out, s1, t) \<Rightarrow> session_after S inps s1)"

section \<open>Test doubles for the collaborators\<close>

text \<open>
  Concrete collaborators on which the handlers can be evaluated. Floats are stood in for
  by reals; \<open>demo_float_str\<close> is the float formatting at the handful of values the
  scenarios produce, where rounding to one decimal changes nothing.
\<close>

definition demo_pages :: "bytes \<Rightarrow> string + string option list" where
  "demo_pages b =
     (if b = ''%PDF void'' then Inr [Some ''This agreement is void.'', None, Some ''Good faith applies.'']
      else if b = ''%PDF short'' then Inr [Some ''Void.'']
      else if b = ''%PDF lease'' then Inr [Some ''Lease'']
      else if b = ''%PDF scan'' then Inr [None, Some '''', Some ''  '']
      else Inl ''No /Root object! - Is this really a PDF?'')"

definition demo_nbest :: "real nbest_entry list" where
  "demo_nbest =
     [\<lparr>cand_text = ''void'', cand_probability = 87 / 100\<rparr>,
      \<lparr>cand_text = '''', cand_probability = 5 / 100\<rparr>,
      \<lparr>cand_text = ''Good faith'', cand_probability = 4 / 100\<rparr>,
      \<lparr>cand_text = ''agreement'', cand_probability = 3 / 100\<rparr>,
      \<lparr>cand_text = ''is void'', cand_probability = 1 / 100\<rparr>]"

definition demo_run_prediction ::
  "string list \<Rightarrow> string \<Rightarrow> string \<Rightarrow> nat \<Rightarrow>
   exn + ((string \<rightharpoonup> string) \<times> (string \<rightharpoonup> real nbest_entry list))" where
  "demo_run_prediction qs ctx model_id n =
     (if startswith ctx ''This agreement'' then Inr ([''0'' \<mapsto> ''void''], [''0'' \<mapsto> demo_nbest])
      else if ctx = ''Void.'' then Inr ([''0'' \<mapsto> ''Void''], [''0'' \<mapsto> take 3 demo_nbest])
      else if ctx = ''Lease''
      then Inr ([''0'' \<mapsto> ''''], [''0'' \<mapsto> [\<lparr>cand_text = '''', cand_probability = 1\<rparr>]])
      else Inl (CollaboratorError ''model unavailable''))"

definition demo_polarity :: "string \<Rightarrow> real" where
  "demo_polarity t =
     (if t = ''void'' \<or> t = ''is void'' then - 1 / 10
      else if t = ''Good faith'' then 7 / 10
      else 0)"

definition demo_float_str :: "real \<Rightarrow> string" where
  "demo_float_str x =
     (if x = 87 then ''87.0'' else if x = 5 then ''5.0'' else if x = 4 then ''4.0''
      else if x = 3 then ''3.0'' else if x = 1 then ''1.0'' else ''?'')"

definition demo_externals :: "(real, string list) externals" where
  "demo_externals =
     \<lparr>pdfplumber_pages = demo_pages,
      run_prediction = demo_run_prediction,
      polarity = demo_polarity,
      paraphrase = (\<lambda>t. Inr [t]),
      float_mul = (\<lambda>x n. x * real_of_int n),
      float_round = (\<lambda>x n. x),
      float_str = demo_float_str\<rparr>"

definition demo_responses :: "stored_qa list" where
  "demo_responses =
     [\<lparr>question = ''Governing law?'', stored_answer = ''Delaware''\<rparr>,
      \<lparr>question = ''Term?'', stored_answer = ''Two years''\<rparr>,
      \<lparr>question = ''Governing law?'', stored_answer = ''New York''\<rparr>]"

definition demo_world :: "real world" where
  "demo_world =
     \<lparr>questions_short_txt = Some [''Governing law?'' @ newline, ''Term?'' @ newline],
      nbest_json = None,
      responses_json = Some demo_responses,
      calls = []\<rparr>"

definition demo_services :: "(contents \<Rightarrow> exn + string) \<Rightarrow> services" where
  "demo_services reply =
     \<lparr>pdf_reader_pages = (\<lambda>b. Inr [''Lease agreement'']),
      image_open = (\<lambda>b. Inr ()),
      b64encode = (\<lambda>b. ''JVBERg==''),
      generate_content = (\<lambda>model_name system_instruction max_tokens temperature c. reply c)\<rparr>"

definition demo_inputs :: inputs where
  "demo_inputs =
     \<lparr>user_key = ''key'', secrets_key = None, env_key = None,
      selected_model = ''gemini-2.5-flash'',
      uploaded_file = Some \<lparr>mime = ''application/pdf'', file_bytes = ''%PDF''\<rparr>,
      summary_clicked = False,
      chat_input = None\<rparr>"

section \<open>Auxiliary definition for stating the loop's result\<close>

text \<open>
  The dict that one iteration of the \<open>range(5)\<close> loop appends for the entry \<open>c\<close>: the pure
  part of the loop body, with the label of \<open>getContractAnalysis\<close> written out.
\<close>

definition candidate_of :: "('f, 'r) externals \<Rightarrow> 'f nbest_entry \<Rightarrow> answer_candidate" where
  "candidate_of X c =
     \<lparr>answer = cand_text c,
      probability = format_probability X (cand_probability c),
      analyse = (if cand_text c = '''' then ''No answer found in document''
                 else if 0 < polarity X (cand_text c) then ''Positive''
                 else if polarity X (cand_text c) < 0 then ''Negative''
                 else ''Neutral'')\<rparr>"


section \<open>Properties of the Query Service\<close>

subsection \<open>Evaluation on the test doubles\<close>

lemmas demo_defs = demo_externals_def demo_pages_def demo_run_prediction_def demo_nbest_def
  demo_polarity_def demo_float_str_def demo_world_def demo_responses_def

lemma range5: "[0..<5] = [0, 1, 2, 3, 4]"
  by (simp add: upt_rec)

lemmas eval_defs = getContractResponse_def getContractAnalysis_def format_probability_def
  py_strip_def py_isspace_def newline_def startswith_def call_def sentinel_def Let_def range5

subsection \<open>The call log and the files\<close>

lemma call_simps:
  "calls (call e w) = calls w @ [e]"
  "nbest_json (call e w) = nbest_json w"
  "responses_json (call e w) = responses_json w"
  "questions_short_txt (call e w) = questions_short_txt w"
  by (simp_all add: call_def)

subsection \<open>No answer found\<close>

text \<open>
  C3. When the request passes validation and the QA inference collaborator's top-ranked
  answer (\<open>predictions['0']\<close>) is the empty string, the response is status 200 with exactly
  one candidate, \<open>{answer: "No answer found in document", probability: "", analyse:
  "Neutral"}\<close>. The only outgoing calls are the PDF library and the inference call: the
  file \<open>nbest.json\<close> is not opened.
\<close>

theorem C3_no_answer_sentinel:
  assumes "files_file req = Some b"
    and "pdfplumber_pages X b = Inr pages"
    and "ctx = py_strip (extract_pages '''' pages)"
    and "ctx \<noteq> ''''"
    and "form_question req = Some q"
    and "q \<noteq> ''''"
    and "run_prediction X [q] ctx ''marshmellow77/roberta-base-cuad'' 5 =
           Inr (predictions, nbest)"
    and "predictions ''0'' = Some ''''"
  shows "fst (getContractResponse X req w) =
           Response (JAnswers [\<lparr>answer = ''No answer found in document'', probability = '''',
                                 analyse = ''Neutral''\<rparr>]) 200 \<and>
         calls (snd (getContractResponse X req w)) =
           calls w @ [PdfOpen b,
                      RunPrediction [q] ctx ''marshmellow77/roberta-base-cuad'' 5] \<and>
         OpenFile ''nbest.json'' \<notin>
           set (drop (length (calls w)) (calls (snd (getContractResponse X req w))))"
  using assms by (simp add: getContractResponse_def Let_def call_def sentinel_def)

theorem C3_no_answer_sentinel_witness:
  "fst (getContractResponse demo_externals
          \<lparr>files_file = Some ''%PDF lease'', form_question = Some ''Term?''\<rparr> demo_world) =
     Response (JAnswers [\<lparr>answer = ''No answer found in document'', probability = '''',
                           analyse = ''Neutral''\<rparr>]) 200 \<and>
   calls (snd (getContractResponse demo_externals
          \<lparr>files_file = Some ''%PDF lease'', form_question = Some ''Term?''\<rparr> demo_world)) =
     [PdfOpen ''%PDF lease'',
      RunPrediction [''Term?''] ''Lease'' ''marshmellow77/roberta-base-cuad'' 5]"
proof -
  let ?req = "\<lparr>files_file = Some ''%PDF lease'', form_question = Some ''Term?''\<rparr>"
  have h1: "files_file ?req = Some ''%PDF lease''" by simp
  have h2: "pdfplumber_pages demo_externals ''%PDF lease'' = Inr [Some ''Lease'']"
    by (simp add: demo_defs)
  have h3: "''Lease'' = py_strip (extract_pages '''' [Some ''Lease''])"
    by (simp add: py_strip_def py_isspace_def newline_def)
  have h4: "''Lease'' \<noteq> ''''" by simp
  have h5: "form_question ?req = Some ''Term?''" by simp
  have h6: "''Term?'' \<noteq> ''''" by simp
  have h7: "run_prediction demo_externals [''Term?''] ''Lease''
              ''marshmellow77/roberta-base-cuad'' 5 =
            Inr ([''0'' \<mapsto> ''''],
                 [''0'' \<mapsto> [\<lparr>cand_text = '''', cand_probability = 1\<rparr>]])"
    by (simp add: demo_defs startswith_def)
  have h8: "[''0'' \<mapsto> ''''] ''0'' = Some ''''" by simp
  from C3_no_answer_sentinel [OF h1 h2 h3 h4 h5 h6 h7 h8, of demo_world]
  show ?thesis by (simp add: demo_world_def)
qed

subsection \<open>Unreadable documents\<close>

text \<open>
  C7. The response is the DocumentReadError body \<open>{error, details}\<close> with status 500 if and
  only if a file was uploaded and parsing it raised; then \<open>error\<close> is
  \<open>"Error reading PDF"\<close>, \<open>details\<close> is the message of the exception, and the only outgoing
  call is the one to the PDF library, so no inference call is made.
\<close>

theorem C7_document_read_error:
  "((\<exists>e d. fst (getContractResponse X req w) = Response (JErrorDetails e d) 500) \<longleftrightarrow>
      (\<exists>b msg. files_file req = Some b \<and> pdfplumber_pages X b = Inl msg)) \<and>
   (\<forall>b msg. files_file req = Some b \<and> pdfplumber_pages X b = Inl msg \<longrightarrow>
      getContractResponse X req w =
        (Response (JErrorDetails ''Error reading PDF'' msg) 500,
         w\<lparr>calls := calls w @ [PdfOpen b]\<rparr>))"
  by (auto simp: getContractResponse_def Let_def call_def
           split: option.splits sum.splits prod.splits if_splits)

theorem C7_document_read_error_witness:
  "getContractResponse demo_externals
     \<lparr>files_file = Some ''GIF89a'', form_question = Some ''Term?''\<rparr> demo_world =
   (Response (JErrorDetails ''Error reading PDF'' ''No /Root object! - Is this really a PDF?'')
      500,
    demo_world\<lparr>calls := calls demo_world @ [PdfOpen ''GIF89a'']\<rparr>)"
  using C7_document_read_error
    [where req = "\<lparr>files_file = Some ''GIF89a'', form_question = Some ''Term?''\<rparr>"
       and X = demo_externals and w = demo_world]
  by (simp add: demo_defs)

subsection \<open>Stored answers\<close>

lemma scan_no_match:
  "\<forall>e \<in> set rs. question e \<noteq> q \<Longrightarrow> scan_responses rs q = ''Response not found''"
  by (induction rs) auto

lemma scan_first_match:
  "i < length rs \<Longrightarrow> question (rs ! i) = q \<Longrightarrow> \<forall>j<i. question (rs ! j) \<noteq> q \<Longrightarrow>
   scan_responses rs q = stored_answer (rs ! i)"
proof (induction rs arbitrary: i)
  case Nil
  then show ?case by simp
next
  case (Cons r rs)
  show ?case
  proof (cases i)
    case 0
    then show ?thesis using Cons.prems by simp
  next
    case (Suc k)
    have "question r \<noteq> q" using Cons.prems(3) Suc by auto
    moreover have "scan_responses rs q = stored_answer (rs ! k)"
      using Cons.prems Suc by (intro Cons.IH) auto
    ultimately show ?thesis using Suc by simp
  qed
qed

text \<open>
  C6. With \<open>responses.json\<close> holding the list \<open>rs\<close> and \<open>q\<close> the submitted question (the
  empty string when the form field is absent), \<open>get_response\<close> answers with the
  \<open>answer\<close> of the first entry, in file order, whose \<open>question\<close> equals \<open>q\<close>, and with the
  string \<open>"Response not found"\<close> when no entry matches.
\<close>

theorem C6_first_match:
  assumes "responses_json w = Some rs"
    and "q = (case f of None \<Rightarrow> '''' | Some s \<Rightarrow> s)"
  shows "(\<forall>i. i < length rs \<and> question (rs ! i) = q \<and> (\<forall>j<i. question (rs ! j) \<noteq> q) \<longrightarrow>
            fst (get_response f w) = Response (JString (stored_answer (rs ! i))) 200) \<and>
         ((\<forall>e \<in> set rs. question e \<noteq> q) \<longrightarrow>
            fst (get_response f w) = Response (JString ''Response not found'') 200)"
  using assms
  by (auto simp: get_response_def Let_def call_def scan_no_match scan_first_match)

theorem C6_first_match_witness:
  "fst (get_response (Some ''Governing law?'') demo_world) =
     Response (JString ''Delaware'') 200 \<and>
   fst (get_response (Some ''Price?'') demo_world) =
     Response (JString ''Response not found'') 200"
proof -
  have r: "responses_json demo_world = Some demo_responses"
    by (simp add: demo_world_def)
  have "fst (get_response (Some ''Governing law?'') demo_world) =
          Response (JString (stored_answer (demo_responses ! 0))) 200"
    using C6_first_match [OF r, where f = "Some ''Governing law?''" and q = "''Governing law?''",
        THEN conjunct1, rule_format, of 0]
    by (simp add: demo_responses_def)
  moreover have "fst (get_response (Some ''Price?'') demo_world) =
          Response (JString ''Response not found'') 200"
    using C6_first_match [OF r, where f = "Some ''Price?''" and q = "''Price?''",
        THEN conjunct2]
    by (simp add: demo_responses_def)
  ultimately show ?thesis by (simp add: demo_responses_def)
qed

subsection \<open>The sentiment label and the candidate loop\<close>

lemma fst_getContractAnalysis:
  "fst (getContractAnalysis X t w) =
     (if t = '''' then ''No answer found in document''
      else if 0 < polarity X t then ''Positive''
      else if polarity X t < 0 then ''Negative'' else ''Neutral'')"
  by (simp add: getContractAnalysis_def Let_def)

lemma snd_getContractAnalysis:
  "snd (getContractAnalysis X t w) = (if t = '''' then w else call (Polarity t) w)"
  by (simp add: getContractAnalysis_def Let_def)

text \<open>One iteration of the loop, for an index inside the list.\<close>

lemma answers_loop_step:
  assumes "i < length cs"
  shows "answers_loop X cs (i # is) acc w =
         answers_loop X cs is (acc @ [candidate_of X (cs ! i)])
           (snd (getContractAnalysis X (cand_text (cs ! i)) w))"
proof -
  obtain a w1 where g: "getContractAnalysis X (cand_text (cs ! i)) w = (a, w1)"
    by (cases "getContractAnalysis X (cand_text (cs ! i)) w")
  have a: "a = analyse (candidate_of X (cs ! i))"
    using g fst_getContractAnalysis [of X "cand_text (cs ! i)" w]
    by (simp add: candidate_of_def)
  have w1: "snd (getContractAnalysis X (cand_text (cs ! i)) w) = w1"
    by (simp only: g snd_conv)
  show ?thesis
    unfolding w1 using assms g by (simp add: a candidate_of_def)
qed

lemma answers_loop_in_range:
  "\<forall>i \<in> set is. i < length cs \<Longrightarrow>
   fst (answers_loop X cs is acc w) = Inr (acc @ map (\<lambda>i. candidate_of X (cs ! i)) is)"
proof (induction "is" arbitrary: acc w)
  case Nil
  then show ?case by simp
next
  case (Cons i "is")
  then have lt: "i < length cs" by simp
  show ?case
    unfolding answers_loop_step [OF lt] using Cons by simp
qed

lemma answers_loop_Inr:
  "fst (answers_loop X cs is acc w) = Inr as \<Longrightarrow>
   as = acc @ map (\<lambda>i. candidate_of X (cs ! i)) is"
proof (induction "is" arbitrary: acc w)
  case Nil
  then show ?case by simp
next
  case (Cons i "is")
  have lt: "i < length cs"
  proof (rule ccontr)
    assume "\<not> i < length cs"
    then have "fst (answers_loop X cs (i # is) acc w) = Inl IndexError" by simp
    then show False using Cons.prems by simp
  qed
  have "fst (answers_loop X cs is (acc @ [candidate_of X (cs ! i)])
               (snd (getContractAnalysis X (cand_text (cs ! i)) w))) = Inr as"
    using Cons.prems unfolding answers_loop_step [OF lt] .
  from Cons.IH [OF this] show ?case by simp
qed

lemma answers_loop_calls:
  "Polarity '''' \<notin> set (calls w) \<Longrightarrow>
   Polarity '''' \<notin> set (calls (snd (answers_loop X cs is acc w)))"
proof (induction "is" arbitrary: acc w)
  case Nil
  then show ?case by simp
next
  case (Cons i "is")
  show ?case
  proof (cases "i < length cs")
    case True
    have "Polarity '''' \<notin> set (calls (snd (getContractAnalysis X (cand_text (cs ! i)) w)))"
      using Cons.prems by (auto simp: snd_getContractAnalysis call_simps)
    from Cons.IH [OF this] show ?thesis
      unfolding answers_loop_step [OF True] .
  next
    case False
    then show ?thesis using Cons.prems by simp
  qed
qed

lemma answers_loop_responses:
  "responses_json (snd (answers_loop X cs is acc w)) = responses_json w"
proof (induction "is" arbitrary: acc w)
  case Nil
  then show ?case by simp
next
  case (Cons i "is")
  show ?case
  proof (cases "i < length cs")
    case True
    have "responses_json (snd (getContractAnalysis X (cand_text (cs ! i)) w)) =
          responses_json w"
      by (simp add: snd_getContractAnalysis call_simps)
    with Cons.IH show ?thesis
      unfolding answers_loop_step [OF True] by simp
  next
    case False
    then show ?thesis by simp
  qed
qed

text \<open>The last \<open>case\<close> of the handler, read through \<open>fst\<close> and through the world.\<close>

lemma loop_result_answers:
  "fst (case p of (Inl e, w5) \<Rightarrow> (Unhandled e, w5)
               | (Inr answers, w5) \<Rightarrow> (Response (JAnswers answers) 200, w5)) =
     Response (JAnswers as) st \<longleftrightarrow> fst p = Inr as \<and> st = 200"
  by (cases p; cases "fst p") auto

lemma loop_result_responses:
  "responses_json (snd (case p of (Inl e, w5) \<Rightarrow> (Unhandled e, w5)
               | (Inr answers, w5) \<Rightarrow> (Response (JAnswers answers) (200::nat), w5))) =
     responses_json (snd p)"
  by (cases p; cases "fst p") auto

lemma loop_result_calls:
  "calls (snd (case p of (Inl e, w5) \<Rightarrow> (Unhandled e, w5)
               | (Inr answers, w5) \<Rightarrow> (Response (JAnswers answers) (200::nat), w5))) =
     calls (snd p)"
  by (cases p; cases "fst p") auto

lemma getContractResponse_answers:
  assumes "fst (getContractResponse X req w) = Response (JAnswers as) st"
  shows "as = [sentinel] \<or> (\<exists>cs. as = map (\<lambda>i. candidate_of X (cs ! i)) [0..<5])"
proof (cases "files_file req")
  case None
  then show ?thesis using assms by (simp add: getContractResponse_def)
next
  case (Some b)
  show ?thesis
  proof (cases "pdfplumber_pages X b")
    case (Inl e)
    then show ?thesis using assms Some by (simp add: getContractResponse_def Let_def)
  next
    case (Inr pages)
    have "as = [sentinel] \<or> (\<exists>cs w4. fst (answers_loop X cs [0..<5] [] w4) = Inr as)"
      using assms Some Inr
      by (simp add: getContractResponse_def Let_def loop_result_answers
               split: option.splits sum.splits if_splits prod.splits) blast
    then show ?thesis using answers_loop_Inr by fastforce
  qed
qed

lemma getContractResponse_calls:
  assumes "Polarity '''' \<notin> set (calls w)"
  shows "Polarity '''' \<notin> set (calls (snd (getContractResponse X req w)))"
proof (cases "files_file req")
  case None
  then show ?thesis using assms by (simp add: getContractResponse_def)
next
  case (Some b)
  show ?thesis
  proof (cases "pdfplumber_pages X b")
    case (Inl e)
    then show ?thesis using assms Some by (simp add: getContractResponse_def Let_def call_simps)
  next
    case (Inr pages)
    have *: "\<And>cs w4. Polarity '''' \<notin> set (calls w4) \<Longrightarrow>
        Polarity '''' \<notin> set (calls (snd (answers_loop X cs [0..<5] [] w4)))"
      by (rule answers_loop_calls)
    show ?thesis using assms Some Inr
      by (simp add: getContractResponse_def Let_def loop_result_calls call_simps *
               split: option.splits sum.splits if_splits prod.splits)
  qed
qed

text \<open>The scenario of the five persisted candidates, evaluated.\<close>

lemma demo_void_response:
  "fst (getContractResponse demo_externals
          \<lparr>files_file = Some ''%PDF void'', form_question = Some ''Is this agreement valid?''\<rparr>
          demo_world) =
   Response (JAnswers
     [\<lparr>answer = ''void'', probability = ''87.0%'', analyse = ''Negative''\<rparr>,
      \<lparr>answer = '''', probability = ''5.0%'', analyse = ''No answer found in document''\<rparr>,
      \<lparr>answer = ''Good faith'', probability = ''4.0%'', analyse = ''Positive''\<rparr>,
      \<lparr>answer = ''agreement'', probability = ''3.0%'', analyse = ''Neutral''\<rparr>,
      \<lparr>answer = ''is void'', probability = ''1.0%'', analyse = ''Negative''\<rparr>]) 200"
  by (simp add: eval_defs demo_defs)

subsection \<open>Candidates with empty text\<close>

text \<open>
  C9. For the empty string \<open>getContractAnalysis\<close> returns \<open>"No answer found in document"\<close>,
  which is none of the three sentiment labels, and leaves the world as it was: the polarity
  classifier is not called. In a response of \<open>/contracts\<close> every candidate whose \<open>answer\<close>
  is the empty string therefore has that string as its \<open>analyse\<close> field, and the handler
  never calls the classifier on the empty string.
\<close>

theorem C9_empty_text_analysis:
  "getContractAnalysis X '''' w = (''No answer found in document'', w) \<and>
   fst (getContractAnalysis X '''' w) \<notin> {''Positive'', ''Negative'', ''Neutral''} \<and>
   (\<forall>as st a. fst (getContractResponse X req w) = Response (JAnswers as) st \<and>
       a \<in> set as \<and> answer a = '''' \<longrightarrow> analyse a = ''No answer found in document'') \<and>
   (Polarity '''' \<notin> set (calls w) \<longrightarrow>
      Polarity '''' \<notin> set (calls (snd (getContractResponse X req w))))"
proof (intro conjI allI impI)
  show "getContractAnalysis X '''' w = (''No answer found in document'', w)"
    by (simp add: getContractAnalysis_def)
  show "fst (getContractAnalysis X '''' w) \<notin> {''Positive'', ''Negative'', ''Neutral''}"
    by (simp add: getContractAnalysis_def)
next
  fix as st a
  assume h: "fst (getContractResponse X req w) = Response (JAnswers as) st \<and>
       a \<in> set as \<and> answer a = ''''"
  then consider "as = [sentinel]"
    | cs where "as = map (\<lambda>i. candidate_of X (cs ! i)) [0..<5]"
    using getContractResponse_answers by blast
  then show "analyse a = ''No answer found in document''"
  proof cases
    case 1
    with h have "a = sentinel" by simp
    with h show ?thesis by (simp add: sentinel_def)
  next
    case 2
    then obtain i where "a = candidate_of X (cs ! i)" using h by auto
    then show ?thesis using h by (simp add: candidate_of_def)
  qed
next
  assume "Polarity '''' \<notin> set (calls w)"
  then show "Polarity '''' \<notin> set (calls (snd (getContractResponse X req w)))"
    by (rule getContractResponse_calls)
qed

theorem C9_empty_text_analysis_witness:
  "getContractAnalysis demo_externals '''' demo_world =
     (''No answer found in document'', demo_world) \<and>
   (\<exists>as. fst (getContractResponse demo_externals
       \<lparr>files_file = Some ''%PDF void'', form_question = Some ''Is this agreement valid?''\<rparr>
       demo_world) = Response (JAnswers as) 200 \<and>
     as ! 1 \<in> set as \<and> answer (as ! 1) = '''' \<and>
     analyse (as ! 1) = ''No answer found in document'') \<and>
   Polarity '''' \<notin> set (calls (snd (getContractResponse demo_externals
      \<lparr>files_file = Some ''%PDF void'', form_question = Some ''Is this agreement valid?''\<rparr>
      demo_world)))"
proof -
  let ?req = "\<lparr>files_file = Some ''%PDF void'',
               form_question = Some ''Is this agreement valid?''\<rparr>"
  let ?as = "[\<lparr>answer = ''void'', probability = ''87.0%'', analyse = ''Negative''\<rparr>,
      \<lparr>answer = '''', probability = ''5.0%'', analyse = ''No answer found in document''\<rparr>,
      \<lparr>answer = ''Good faith'', probability = ''4.0%'', analyse = ''Positive''\<rparr>,
      \<lparr>answer = ''agreement'', probability = ''3.0%'', analyse = ''Neutral''\<rparr>,
      \<lparr>answer = ''is void'', probability = ''1.0%'', analyse = ''Negative''\<rparr>]"
  note t = C9_empty_text_analysis [where X = demo_externals and w = demo_world and req = ?req]
  have c: "Polarity '''' \<notin> set (calls demo_world)" by (simp add: demo_world_def)
  have r: "fst (getContractResponse demo_externals ?req demo_world) =
             Response (JAnswers ?as) 200"
    by (rule demo_void_response)
  have m: "?as ! 1 \<in> set ?as" by simp
  have e: "answer (?as ! 1) = ''''" by simp
  from t have 1: "getContractAnalysis demo_externals '''' demo_world =
     (''No answer found in document'', demo_world)" by blast
  from t r m e have 2: "analyse (?as ! 1) = ''No answer found in document''" by blast
  from t c have 3: "Polarity '''' \<notin> set (calls (snd (getContractResponse demo_externals
      ?req demo_world)))" by blast
  from r m e 2 have "\<exists>as. fst (getContractResponse demo_externals ?req demo_world) =
       Response (JAnswers as) 200 \<and> as ! 1 \<in> set as \<and> answer (as ! 1) = '''' \<and>
     analyse (as ! 1) = ''No answer found in document''" by blast
  with 1 3 show ?thesis by blast
qed

subsection \<open>Five candidates\<close>

text \<open>
  C1 does not hold as stated: a candidate of the top-n file whose text is empty gets the
  \<open>analyse\<close> field \<open>"No answer found in document"\<close>, which is not a sentiment label; and
  when the file lists fewer than five candidates the loop runs past the end of the list and
  the request ends with an uncaught \<open>IndexError\<close> instead of a result.
\<close>

theorem C1_counterexample:
  "fst (getContractResponse demo_externals
          \<lparr>files_file = Some ''%PDF void'', form_question = Some ''Is this agreement valid?''\<rparr>
          demo_world) =
     Response (JAnswers
       [\<lparr>answer = ''void'', probability = ''87.0%'', analyse = ''Negative''\<rparr>,
        \<lparr>answer = '''', probability = ''5.0%'', analyse = ''No answer found in document''\<rparr>,
        \<lparr>answer = ''Good faith'', probability = ''4.0%'', analyse = ''Positive''\<rparr>,
        \<lparr>answer = ''agreement'', probability = ''3.0%'', analyse = ''Neutral''\<rparr>,
        \<lparr>answer = ''is void'', probability = ''1.0%'', analyse = ''Negative''\<rparr>]) 200 \<and>
   ''No answer found in document'' \<notin> {''Positive'', ''Negative'', ''Neutral''} \<and>
   fst (getContractResponse demo_externals
          \<lparr>files_file = Some ''%PDF short'', form_question = Some ''Is this agreement valid?''\<rparr>
          demo_world) = Unhandled IndexError"
  by (simp add: eval_defs demo_defs)

text \<open>
  C1 (amended). When the request passes validation, the QA inference collaborator's
  top-ranked answer is a non-empty string and the persisted top-n list for question
  \<open>'0'\<close> holds at least five candidates, the response is status 200 with exactly five
  candidates, built from the first five persisted ones in order. Each has the persisted
  text as \<open>answer\<close>; \<open>probability\<close> is the float formatting of \<open>round(p * 100, 1)\<close>
  followed by \<open>"%"\<close>; \<open>analyse\<close> is \<open>"Positive"\<close>, \<open>"Negative"\<close> or \<open>"Neutral"\<close> as the
  polarity of the text is above, below or equal to zero when the text is non-empty, and
  \<open>"No answer found in document"\<close> when the text is empty.
\<close>

theorem C1_five_candidates:
  assumes "files_file req = Some b"
    and "pdfplumber_pages X b = Inr pages"
    and "ctx = py_strip (extract_pages '''' pages)"
    and "ctx \<noteq> ''''"
    and "form_question req = Some q"
    and "q \<noteq> ''''"
    and "run_prediction X [q] ctx ''marshmellow77/roberta-base-cuad'' 5 =
           Inr (predictions, nbest)"
    and "predictions ''0'' = Some top_answer"
    and "top_answer \<noteq> ''''"
    and "nbest ''0'' = Some cs"
    and "5 \<le> length cs"
  shows "\<exists>as. fst (getContractResponse X req w) = Response (JAnswers as) 200 \<and>
      length as = 5 \<and>
      (\<forall>i<5. answer (as ! i) = cand_text (cs ! i) \<and>
         probability (as ! i) =
           float_str X (float_round X (float_mul X (cand_probability (cs ! i)) 100) 1) @ ''%'' \<and>
         analyse (as ! i) =
           (if cand_text (cs ! i) = '''' then ''No answer found in document''
            else if 0 < polarity X (cand_text (cs ! i)) then ''Positive''
            else if polarity X (cand_text (cs ! i)) < 0 then ''Negative''
            else ''Neutral''))"
proof -
  let ?w4 = "call (OpenFile ''nbest.json'')
               ((call (RunPrediction [q] ctx ''marshmellow77/roberta-base-cuad'' 5)
                  (call (PdfOpen b) w))\<lparr>nbest_json := Some nbest\<rparr>)"
  let ?as = "map (\<lambda>i. candidate_of X (cs ! i)) [0..<5]"
  have "\<forall>i \<in> set [0..<5]. i < length cs" using assms(11) by auto
  then have loop: "fst (answers_loop X cs [0..<5] [] ?w4) = Inr ?as"
    using answers_loop_in_range [of "[0..<5]" cs X "[]" ?w4] by simp
  obtain r w5 where rw: "answers_loop X cs [0..<5] [] ?w4 = (r, w5)"
    by (cases "answers_loop X cs [0..<5] [] ?w4")
  with loop have r: "r = Inr ?as" by simp
  have "fst (getContractResponse X req w) = Response (JAnswers ?as) 200"
    using assms(1-10) rw r
    by (simp add: getContractResponse_def Let_def call_simps)
  moreover have "length ?as = 5" by simp
  moreover have "\<forall>i<5. answer (?as ! i) = cand_text (cs ! i) \<and>
         probability (?as ! i) =
           float_str X (float_round X (float_mul X (cand_probability (cs ! i)) 100) 1) @ ''%'' \<and>
         analyse (?as ! i) =
           (if cand_text (cs ! i) = '''' then ''No answer found in document''
            else if 0 < polarity X (cand_text (cs ! i)) then ''Positive''
            else if polarity X (cand_text (cs ! i)) < 0 then ''Negative''
            else ''Neutral'')"
    by (simp add: candidate_of_def format_probability_def)
  ultimately show ?thesis by blast
qed

theorem C1_five_candidates_witness:
  "\<exists>as. fst (getContractResponse demo_externals
            \<lparr>files_file = Some ''%PDF void'',
             form_question = Some ''Is this agreement valid?''\<rparr> demo_world) =
          Response (JAnswers as) 200 \<and>
        length as = 5 \<and>
        answer (as ! 0) = ''void'' \<and> probability (as ! 0) = ''87.0%'' \<and>
        analyse (as ! 0) = ''Negative'' \<and>
        answer (as ! 2) = ''Good faith'' \<and> probability (as ! 2) = ''4.0%'' \<and>
        analyse (as ! 2) = ''Positive''"
proof -
  let ?req = "\<lparr>files_file = Some ''%PDF void'',
               form_question = Some ''Is this agreement valid?''\<rparr>"
  let ?pages = "[Some ''This agreement is void.'', None, Some ''Good faith applies.'']"
  have h1: "files_file ?req = Some ''%PDF void''" by simp
  have h2: "pdfplumber_pages demo_externals ''%PDF void'' = Inr ?pages"
    by (simp add: demo_defs)
  have h3: "py_strip (extract_pages '''' ?pages) = py_strip (extract_pages '''' ?pages)"
    by (rule refl)
  have h4: "py_strip (extract_pages '''' ?pages) \<noteq> ''''"
    by (simp add: py_strip_def py_isspace_def newline_def)
  have h5: "form_question ?req = Some ''Is this agreement valid?''" by simp
  have h6: "''Is this agreement valid?'' \<noteq> ''''" by simp
  have h7: "run_prediction demo_externals [''Is this agreement valid?'']
              (py_strip (extract_pages '''' ?pages)) ''marshmellow77/roberta-base-cuad'' 5 =
            Inr ([''0'' \<mapsto> ''void''], [''0'' \<mapsto> demo_nbest])"
    by (simp add: demo_externals_def demo_run_prediction_def startswith_def py_strip_def
          py_isspace_def newline_def)
  have h8: "[''0'' \<mapsto> ''void''] ''0'' = Some ''void''" by simp
  have h9: "''void'' \<noteq> ''''" by simp
  have h10: "[''0'' \<mapsto> demo_nbest] ''0'' = Some demo_nbest" by simp
  have h11: "5 \<le> length demo_nbest" by (simp add: demo_nbest_def)
  from C1_five_candidates [OF h1 h2 h3 h4 h5 h6 h7 h8 h9 h10 h11, of demo_world]
  obtain as where a: "fst (getContractResponse demo_externals ?req demo_world) =
        Response (JAnswers as) 200" "length as = 5"
    and e: "\<forall>i<5. answer (as ! i) = cand_text (demo_nbest ! i) \<and>
         probability (as ! i) =
           float_str demo_externals (float_round demo_externals
             (float_mul demo_externals (cand_probability (demo_nbest ! i)) 100) 1) @ ''%'' \<and>
         analyse (as ! i) =
           (if cand_text (demo_nbest ! i) = '''' then ''No answer found in document''
            else if 0 < polarity demo_externals (cand_text (demo_nbest ! i)) then ''Positive''
            else if polarity demo_externals (cand_text (demo_nbest ! i)) < 0 then ''Negative''
            else ''Neutral'')"
    by blast
  from e [rule_format, of 0]
  have e0: "answer (as ! 0) = ''void'' \<and> probability (as ! 0) = ''87.0%'' \<and>
            analyse (as ! 0) = ''Negative''"
    by (simp add: demo_defs)
  from e [rule_format, of 2]
  have e2: "answer (as ! 2) = ''Good faith'' \<and> probability (as ! 2) = ''4.0%'' \<and>
            analyse (as ! 2) = ''Positive''"
    by (simp add: demo_defs)
  from a e0 e2 show ?thesis by blast
qed

subsection \<open>Input errors\<close>

text \<open>
  C2 does not hold as stated: with an uploaded file that the PDF library cannot parse, an
  empty question is answered with the DocumentReadError (status 500), because the question
  is only looked at after the document has been read.
\<close>

theorem C2_counterexample:
  "getContractResponse demo_externals
     \<lparr>files_file = Some ''GIF89a'', form_question = Some ''''\<rparr> demo_world =
   (Response (JErrorDetails ''Error reading PDF'' ''No /Root object! - Is this really a PDF?'')
      500,
    demo_world\<lparr>calls := [PdfOpen ''GIF89a'']\<rparr>)"
  by (simp add: eval_defs demo_defs)

text \<open>
  C2 (amended). A request without a file fails with the InputError
  \<open>"No file uploaded"\<close> (status 400) and makes no outgoing call. A request whose file the
  PDF library parses, and whose question is empty or absent or whose extracted text is
  empty after trimming, fails with the InputError \<open>"Need both PDF and question"\<close>
  (status 400). In every request with a missing file, an empty or absent question, or
  extracted text that is empty after trimming, the only outgoing call, if any, is the one
  to the PDF library: the QA inference collaborator is not invoked.
\<close>

theorem C2_input_errors:
  "(files_file req = None \<longrightarrow>
      getContractResponse X req w = (Response (JError ''No file uploaded'') 400, w)) \<and>
   (files_file req = Some b \<and> pdfplumber_pages X b = Inr pages \<and>
      (py_strip (extract_pages '''' pages) = '''' \<or> form_question req \<in> {None, Some ''''}) \<longrightarrow>
      getContractResponse X req w =
        (Response (JError ''Need both PDF and question'') 400,
         w\<lparr>calls := calls w @ [PdfOpen b]\<rparr>)) \<and>
   (files_file req = None \<or> form_question req \<in> {None, Some ''''} \<or>
      (\<exists>b pages. files_file req = Some b \<and> pdfplumber_pages X b = Inr pages \<and>
         py_strip (extract_pages '''' pages) = '''') \<longrightarrow>
      calls (snd (getContractResponse X req w)) = calls w \<or>
      (\<exists>b. calls (snd (getContractResponse X req w)) = calls w @ [PdfOpen b]))"
proof (intro conjI impI)
  assume "files_file req = None"
  then show "getContractResponse X req w = (Response (JError ''No file uploaded'') 400, w)"
    by (simp add: getContractResponse_def)
next
  assume "files_file req = Some b \<and> pdfplumber_pages X b = Inr pages \<and>
      (py_strip (extract_pages '''' pages) = '''' \<or> form_question req \<in> {None, Some ''''})"
  then show "getContractResponse X req w =
        (Response (JError ''Need both PDF and question'') 400,
         w\<lparr>calls := calls w @ [PdfOpen b]\<rparr>)"
    by (auto simp: getContractResponse_def Let_def call_def)
next
  assume h: "files_file req = None \<or> form_question req \<in> {None, Some ''''} \<or>
      (\<exists>b pages. files_file req = Some b \<and> pdfplumber_pages X b = Inr pages \<and>
         py_strip (extract_pages '''' pages) = '''')"
  show "calls (snd (getContractResponse X req w)) = calls w \<or>
      (\<exists>b. calls (snd (getContractResponse X req w)) = calls w @ [PdfOpen b])"
  proof (cases "files_file req")
    case None
    then show ?thesis by (simp add: getContractResponse_def)
  next
    case (Some b)
    show ?thesis
    proof (cases "pdfplumber_pages X b")
      case (Inl e)
      then show ?thesis using Some by (simp add: getContractResponse_def Let_def call_simps)
    next
      case (Inr pages)
      then have "py_strip (extract_pages '''' pages) = '''' \<or>
                 form_question req \<in> {None, Some ''''}"
        using h Some by auto
      then show ?thesis using Some Inr
        by (auto simp: getContractResponse_def Let_def call_simps)
    qed
  qed
qed

theorem C2_input_errors_witness:
  "getContractResponse demo_externals
     \<lparr>files_file = None, form_question = Some ''Term?''\<rparr> demo_world =
     (Response (JError ''No file uploaded'') 400, demo_world) \<and>
   getContractResponse demo_externals
     \<lparr>files_file = Some ''%PDF scan'', form_question = Some ''Term?''\<rparr> demo_world =
     (Response (JError ''Need both PDF and question'') 400,
      demo_world\<lparr>calls := [PdfOpen ''%PDF scan'']\<rparr>) \<and>
   getContractResponse demo_externals
     \<lparr>files_file = Some ''%PDF lease'', form_question = None\<rparr> demo_world =
     (Response (JError ''Need both PDF and question'') 400,
      demo_world\<lparr>calls := [PdfOpen ''%PDF lease'']\<rparr>)"
proof -
  have a: "getContractResponse demo_externals
     \<lparr>files_file = None, form_question = Some ''Term?''\<rparr> demo_world =
     (Response (JError ''No file uploaded'') 400, demo_world)"
    using C2_input_errors
      [where req = "\<lparr>files_file = None, form_question = Some ''Term?''\<rparr>"
         and X = demo_externals and w = demo_world]
    by simp
  have s: "py_strip (extract_pages '''' [None, Some '''', Some ''  '']) = ''''"
    by (simp add: py_strip_def py_isspace_def newline_def)
  have b: "getContractResponse demo_externals
     \<lparr>files_file = Some ''%PDF scan'', form_question = Some ''Term?''\<rparr> demo_world =
     (Response (JError ''Need both PDF and question'') 400,
      demo_world\<lparr>calls := [PdfOpen ''%PDF scan'']\<rparr>)"
    using s C2_input_errors
      [where req = "\<lparr>files_file = Some ''%PDF scan'', form_question = Some ''Term?''\<rparr>"
         and X = demo_externals and w = demo_world and b = "''%PDF scan''"
         and pages = "[None, Some '''', Some ''  '']"]
    by (simp add: demo_externals_def demo_pages_def demo_world_def)
  have c: "getContractResponse demo_externals
     \<lparr>files_file = Some ''%PDF lease'', form_question = None\<rparr> demo_world =
     (Response (JError ''Need both PDF and question'') 400,
      demo_world\<lparr>calls := [PdfOpen ''%PDF lease'']\<rparr>)"
    using C2_input_errors
      [where req = "\<lparr>files_file = Some ''%PDF lease'', form_question = None\<rparr>"
         and X = demo_externals and w = demo_world and b = "''%PDF lease''"
         and pages = "[Some ''Lease'']"]
    by (simp add: demo_externals_def demo_pages_def demo_world_def)
  from a b c show ?thesis by simp
qed

subsection \<open>The stored answers file\<close>

lemma getContractResponse_responses:
  "responses_json (snd (getContractResponse X req w)) = responses_json w"
proof (cases "files_file req")
  case None
  then show ?thesis by (simp add: getContractResponse_def)
next
  case (Some b)
  show ?thesis
  proof (cases "pdfplumber_pages X b")
    case (Inl e)
    then show ?thesis using Some by (simp add: getContractResponse_def Let_def call_simps)
  next
    case (Inr pages)
    show ?thesis using Some Inr
      by (simp add: getContractResponse_def Let_def loop_result_responses call_simps
            answers_loop_responses
          split: option.splits sum.splits if_splits prod.splits)
  qed
qed

lemma handle_responses:
  "responses_json (snd (handle X a r w)) = responses_json w"
proof (cases r)
  case GetQuestionsShort
  then show ?thesis by (simp add: handle_def getQuestionsShort_def)
next
  case (PostContracts req)
  then show ?thesis by (simp add: handle_def getContractResponse_responses)
next
  case (GetParaphrase s)
  then show ?thesis
    by (simp add: handle_def getContractParaphrase_def Let_def call_simps split: sum.splits)
next
  case (PostGetResponse f)
  then show ?thesis
    by (simp add: handle_def get_response_def Let_def call_simps split: option.splits)
qed

lemma serve_responses:
  "responses_json (snd (serve X a rs w)) = responses_json w"
proof (induction rs arbitrary: w)
  case Nil
  then show ?case by simp
next
  case (Cons r rs)
  obtain resp w1 where h: "handle X a r w = (resp, w1)" by (cases "handle X a r w")
  then have "responses_json w1 = responses_json w"
    using handle_responses [of X a r w] by simp
  moreover obtain resps w2 where t: "serve X a rs w1 = (resps, w2)"
    by (cases "serve X a rs w1")
  moreover have "responses_json w2 = responses_json w1" using Cons [of w1] t by simp
  ultimately show ?case using h by simp
qed

lemma get_response_fst:
  "fst (get_response f w) =
     (case responses_json w of
        None \<Rightarrow> Unhandled (FileNotFoundError ''responses.json'')
      | Some rs \<Rightarrow>
          Response (JString (scan_responses rs (case f of None \<Rightarrow> '''' | Some s \<Rightarrow> s))) 200)"
  by (simp add: get_response_def Let_def call_simps split: option.splits)

text \<open>
  The list of short questions, in contrast, is a global of the process: the handler that
  returns it reads no file.
\<close>

lemma getQuestionsShort_reads_nothing:
  "getQuestionsShort a w = (Response (JStrings (questions_short a)) 200, w)"
  by (simp add: getQuestionsShort_def)

text \<open>
  C5 does not hold as stated: \<open>get_response\<close> opens \<open>responses.json\<close> in every call, and
  its answer follows what the file holds at that moment. Two calls with the same question
  answer differently when the file was replaced in between.
\<close>

theorem C5_counterexample:
  "calls (snd (get_response (Some ''Term?'') demo_world)) = [OpenFile ''responses.json''] \<and>
   fst (get_response (Some ''Term?'') demo_world) = Response (JString ''Two years'') 200 \<and>
   fst (get_response (Some ''Term?'')
          (demo_world\<lparr>responses_json :=
             Some [\<lparr>question = ''Term?'', stored_answer = ''Five years''\<rparr>]\<rparr>)) =
     Response (JString ''Five years'') 200"
  by (simp add: get_response_def Let_def call_def demo_world_def demo_responses_def)

text \<open>
  C5 (amended). \<open>get_response\<close> opens and reads \<open>responses.json\<close> in every call; nothing of
  it is loaded at process start: starting the process opens only
  \<open>data/questions_short.txt\<close>, and the state it keeps is the same whatever
  \<open>responses.json\<close> holds. No request handler changes the file, so over any sequence
  of requests served by the process the file keeps its content, and \<open>get_response\<close> gives
  the same answer to a fixed question after the sequence as before it.
\<close>

theorem C5_reread_on_every_call:
  "calls (snd (get_response f w)) = calls w @ [OpenFile ''responses.json''] \<and>
   calls (snd (boot w)) = calls w @ [OpenFile ''data/questions_short.txt''] \<and>
   fst (boot (w\<lparr>responses_json := other\<rparr>)) = fst (boot w) \<and>
   responses_json (snd (boot w)) = responses_json w \<and>
   responses_json (snd (handle X a r w)) = responses_json w \<and>
   responses_json (snd (serve X a rs w)) = responses_json w \<and>
   fst (get_response f (snd (serve X a rs w))) = fst (get_response f w)"
proof (intro conjI)
  show "calls (snd (get_response f w)) = calls w @ [OpenFile ''responses.json'']"
    by (simp add: get_response_def Let_def call_simps split: option.splits)
  show "calls (snd (boot w)) = calls w @ [OpenFile ''data/questions_short.txt'']"
    by (simp add: boot_def load_questions_short_def Let_def call_simps split: option.splits)
  show "fst (boot (w\<lparr>responses_json := other\<rparr>)) = fst (boot w)"
    by (simp add: boot_def load_questions_short_def Let_def call_def split: option.splits)
  show "responses_json (snd (boot w)) = responses_json w"
    by (simp add: boot_def load_questions_short_def Let_def call_simps split: option.splits)
  show "responses_json (snd (handle X a r w)) = responses_json w"
    by (rule handle_responses)
  show "responses_json (snd (serve X a rs w)) = responses_json w"
    by (rule serve_responses)
  show "fst (get_response f (snd (serve X a rs w))) = fst (get_response f w)"
    by (simp add: get_response_fst serve_responses)
qed


section \<open>Properties of the Interactive Assistant\<close>

subsection \<open>The transcript and the uploader column\<close>

lemma process_upload_messages:
  "process_upload S u s = (r, s1, t) \<Longrightarrow> messages s1 = messages s"
  by (auto simp: process_upload_def split: if_splits sum.splits)

text \<open>The uploader column changes the transcript only where it ends in \<open>st.rerun()\<close>.\<close>

lemma left_col_messages:
  assumes "left_col S inp s = (out, s1, t)" and "out \<noteq> Rerun"
  shows "messages s1 = messages s"
proof (cases "uploaded_file inp")
  case None
  then show ?thesis using assms by (simp add: left_col_def)
next
  case (Some u)
  obtain r s0 t0 where p: "process_upload S u s = (r, s0, t0)"
    by (cases "process_upload S u s")
  then have m: "messages s0 = messages s" by (rule process_upload_messages)
  show ?thesis using assms Some p m
    by (auto simp: left_col_def split: sum.splits if_splits prod.splits)
qed

text \<open>
  Generating a summary replaces the transcript by the single assistant turn that holds
  the summary.
\<close>

lemma summary_replaces_transcript:
  assumes "left_col S inp s = (Rerun, s1, t)"
  shows "\<exists>summary. summary \<noteq> '''' \<and> messages s1 = [summary_message summary]"
proof (cases "uploaded_file inp")
  case None
  then show ?thesis using assms by (simp add: left_col_def)
next
  case (Some u)
  obtain r s0 t0 where p: "process_upload S u s = (r, s0, t0)"
    by (cases "process_upload S u s")
  show ?thesis using assms Some p
    by (auto simp: left_col_def split: sum.splits if_splits prod.splits)
qed

lemmas main_defs = session_after.simps interact_def script_run_def api_key_def py_or_def
  left_col_def process_upload_def summary_prompt_def summary_message_def
  chat_input_handler_def generate_chat_response_def generate_completion_def gemini_role_def
  system_prompt_text_def startswith_def py_strip_def py_isspace_def newline_def
  demo_services_def demo_inputs_def fresh_def Let_def

subsection \<open>The first turn of the transcript\<close>

text \<open>
  C4, evaluated where the code departs from it. In a fresh session a PDF is uploaded and
  no summary is requested; the next interaction submits a chat message. The document text
  is non-empty, so the guard of the chat handler lets the message through, and the
  transcript then starts with the user turn: its first turn is not the document summary.
\<close>

theorem C4_chat_before_summary:
  "session_after (demo_services (\<lambda>c. Inr ''The parties are A and B.''))
     [demo_inputs, demo_inputs\<lparr>chat_input := Some ''Who are the parties?''\<rparr>] fresh =
   \<lparr>doc_text = ''Lease agreement'',
    messages = [\<lparr>role = ''user'', content = ''Who are the parties?''\<rparr>,
                \<lparr>role = ''assistant'', content = ''The parties are A and B.''\<rparr>]\<rparr>"
  by (simp add: main_defs)

text \<open>For comparison, the same session when the summary is requested first.\<close>

lemma summary_then_chat:
  "session_after (demo_services (\<lambda>c. Inr ''A lease.''))
     [demo_inputs\<lparr>summary_clicked := True\<rparr>,
      demo_inputs\<lparr>chat_input := Some ''Who are the parties?''\<rparr>] fresh =
   \<lparr>doc_text = ''Lease agreement'',
    messages = [\<lparr>role = ''assistant'',
                 content = ''**Document Summary:**'' @ [CHR 0x0A] @ ''A lease.''\<rparr>,
                \<lparr>role = ''user'', content = ''Who are the parties?''\<rparr>,
                \<lparr>role = ''assistant'', content = ''A lease.''\<rparr>]\<rparr>"
  by (simp add: main_defs)

subsection \<open>Chat without a document\<close>

text \<open>
  C8. A chat message submitted while the session's document text is empty is rejected:
  the handler shows the warning \<open>"Please upload and summarize a document first."\<close>, calls
  no collaborator (the warning is the only event) and leaves the session, and with it the
  transcript, as it was. The same holds for a whole run of the script that reaches the
  chat handler with an empty document text: the run ends normally, its only event after
  the uploader column is the warning, and the transcript is the one the run started with.
\<close>

theorem C8_chat_rejected_without_document:
  "(doc_text s = '''' \<and> p \<noteq> '''' \<longrightarrow>
      chat_input_handler S model (Some p) s =
        (Completed, s, [StWarning ''Please upload and summarize a document first.''])) \<and>
   (api_key inp \<notin> {None, Some ''''} \<and> left_col S inp s = (Completed, s1, t1) \<and>
    doc_text s1 = '''' \<and> chat_input inp = Some p \<and> p \<noteq> '''' \<longrightarrow>
      script_run S inp s =
        (Completed, s1, t1 @ [StWarning ''Please upload and summarize a document first.'']) \<and>
      messages s1 = messages s)"
proof (intro conjI impI)
  assume "doc_text s = '''' \<and> p \<noteq> ''''"
  then show "chat_input_handler S model (Some p) s =
        (Completed, s, [StWarning ''Please upload and summarize a document first.''])"
    by (simp add: chat_input_handler_def)
next
  assume h: "api_key inp \<notin> {None, Some ''''} \<and> left_col S inp s = (Completed, s1, t1) \<and>
    doc_text s1 = '''' \<and> chat_input inp = Some p \<and> p \<noteq> ''''"
  then show "script_run S inp s =
        (Completed, s1, t1 @ [StWarning ''Please upload and summarize a document first.''])"
    by (simp add: script_run_def chat_input_handler_def)
  from h have "left_col S inp s = (Completed, s1, t1)" by simp
  then show "messages s1 = messages s" by (rule left_col_messages) simp
qed

theorem C8_chat_rejected_without_document_witness:
  "chat_input_handler (demo_services (\<lambda>c. Inr ''ok'')) ''gemini-2.5-flash''
     (Some ''Who are the parties?'') fresh =
     (Completed, fresh, [StWarning ''Please upload and summarize a document first.'']) \<and>
   script_run (demo_services (\<lambda>c. Inr ''ok''))
     (demo_inputs\<lparr>uploaded_file := None, chat_input := Some ''Who are the parties?''\<rparr>)
     fresh =
     (Completed, fresh, [StWarning ''Please upload and summarize a document first.''])"
proof -
  let ?S = "demo_services (\<lambda>c. Inr ''ok'')"
  let ?inp = "demo_inputs\<lparr>uploaded_file := None, chat_input := Some ''Who are the parties?''\<rparr>"
  note t = C8_chat_rejected_without_document
    [where s = fresh and p = "''Who are the parties?''" and S = ?S
       and model = "''gemini-2.5-flash''" and inp = ?inp and ?s1.0 = fresh and ?t1.0 = "[]"]
  have d: "doc_text fresh = ''''" by (simp add: fresh_def)
  have p: "''Who are the parties?'' \<noteq> ''''" by simp
  have k: "api_key ?inp \<notin> {None, Some ''''}"
    by (simp add: api_key_def demo_inputs_def)
  have l: "left_col ?S ?inp fresh = (Completed, fresh, [])"
    by (simp add: left_col_def demo_inputs_def)
  have c: "chat_input ?inp = Some ''Who are the parties?''" by simp
  from t d p have 1: "chat_input_handler ?S ''gemini-2.5-flash''
     (Some ''Who are the parties?'') fresh =
     (Completed, fresh, [StWarning ''Please upload and summarize a document first.''])"
    by blast
  from t k l d c p have 2: "script_run ?S ?inp fresh =
     (Completed, fresh, [] @ [StWarning ''Please upload and summarize a document first.''])"
    by blast
  from 1 2 show ?thesis by simp
qed

subsection \<open>A failed chat request\<close>

text \<open>
  C10. When a chat message is accepted, the user turn is appended before the chat
  collaborator is called: the history handed to the collaborator already ends with it.
  When the call raises (including the \<open>ValueError\<close> for a model whose name does not start
  with \<open>gemini\<close>) or returns the empty string, the run ends with the transcript holding
  the user turn and no assistant turn after it; only a non-empty reply appends one.
\<close>

theorem C10_user_turn_kept:
  assumes "doc_text s \<noteq> ''''" and "p \<noteq> ''''"
    and "s1 = s\<lparr>messages := messages s @ [\<lparr>role = ''user'', content = p\<rparr>]\<rparr>"
    and "c = GenerateContent model (Some system_prompt_text) 8000 (1 / 2)
               (History (map gemini_role (messages s @ [\<lparr>role = ''user'', content = p\<rparr>])))"
    and "r = generate_content S model (Some system_prompt_text) 8000 (1 / 2)
               (History (map gemini_role (messages s @ [\<lparr>role = ''user'', content = p\<rparr>])))"
  shows "(\<not> startswith model ''gemini'' \<longrightarrow>
            chat_input_handler S model (Some p) s =
              (Crashed (ValueError (''Unsupported model: '' @ model)), s1, [])) \<and>
         (startswith model ''gemini'' \<longrightarrow>
            (\<forall>e. r = Inl e \<longrightarrow> chat_input_handler S model (Some p) s = (Crashed e, s1, [c])) \<and>
            (r = Inr '''' \<longrightarrow> chat_input_handler S model (Some p) s = (Completed, s1, [c])) \<and>
            (\<forall>a. r = Inr a \<and> a \<noteq> '''' \<longrightarrow>
               chat_input_handler S model (Some p) s =
                 (Completed,
                  s1\<lparr>messages := messages s1 @ [\<lparr>role = ''assistant'', content = a\<rparr>]\<rparr>,
                  [c])))"
  using assms
  by (auto simp: chat_input_handler_def generate_chat_response_def Let_def)

theorem C10_user_turn_kept_witness:
  "chat_input_handler (demo_services (\<lambda>c. Inl (CollaboratorError ''quota exceeded'')))
     ''gemini-2.5-flash'' (Some ''Who are the parties?'')
     \<lparr>doc_text = ''Lease agreement'', messages = [summary_message ''A lease.'']\<rparr> =
   (Crashed (CollaboratorError ''quota exceeded''),
    \<lparr>doc_text = ''Lease agreement'',
     messages = [summary_message ''A lease.'',
                 \<lparr>role = ''user'', content = ''Who are the parties?''\<rparr>]\<rparr>,
    [GenerateContent ''gemini-2.5-flash'' (Some system_prompt_text) 8000 (1 / 2)
       (History [(''model'', [content (summary_message ''A lease.'')]),
                 (''user'', [''Who are the parties?''])])]) \<and>
   chat_input_handler (demo_services (\<lambda>c. Inr ''''))
     ''gemini-2.5-flash'' (Some ''Who are the parties?'')
     \<lparr>doc_text = ''Lease agreement'', messages = [summary_message ''A lease.'']\<rparr> =
   (Completed,
    \<lparr>doc_text = ''Lease agreement'',
     messages = [summary_message ''A lease.'',
                 \<lparr>role = ''user'', content = ''Who are the parties?''\<rparr>]\<rparr>,
    [GenerateContent ''gemini-2.5-flash'' (Some system_prompt_text) 8000 (1 / 2)
       (History [(''model'', [content (summary_message ''A lease.'')]),
                 (''user'', [''Who are the parties?''])])])"
proof -
  let ?s = "\<lparr>doc_text = ''Lease agreement'', messages = [summary_message ''A lease.'']\<rparr>"
  let ?p = "''Who are the parties?''"
  let ?F = "demo_services (\<lambda>c. Inl (CollaboratorError ''quota exceeded''))"
  let ?E = "demo_services (\<lambda>c. Inr '''')"
  have h1: "doc_text ?s \<noteq> ''''" by simp
  have h2: "?p \<noteq> ''''" by simp
  have g: "startswith ''gemini-2.5-flash'' ''gemini''" by (simp add: startswith_def)
  have rF: "generate_content ?F ''gemini-2.5-flash'' (Some system_prompt_text) 8000 (1 / 2)
      (History (map gemini_role (messages ?s @ [\<lparr>role = ''user'', content = ?p\<rparr>]))) =
      Inl (CollaboratorError ''quota exceeded'')"
    by (simp add: demo_services_def)
  have rE: "generate_content ?E ''gemini-2.5-flash'' (Some system_prompt_text) 8000 (1 / 2)
      (History (map gemini_role (messages ?s @ [\<lparr>role = ''user'', content = ?p\<rparr>]))) =
      Inr ''''"
    by (simp add: demo_services_def)
  from C10_user_turn_kept [OF h1 h2 refl refl refl, where S = ?F and model = "''gemini-2.5-flash''"]
    g rF
  have 1: "chat_input_handler ?F ''gemini-2.5-flash'' (Some ?p) ?s =
      (Crashed (CollaboratorError ''quota exceeded''),
       ?s\<lparr>messages := messages ?s @ [\<lparr>role = ''user'', content = ?p\<rparr>]\<rparr>,
       [GenerateContent ''gemini-2.5-flash'' (Some system_prompt_text) 8000 (1 / 2)
          (History (map gemini_role (messages ?s @ [\<lparr>role = ''user'', content = ?p\<rparr>])))])"
    by blast
  from C10_user_turn_kept [OF h1 h2 refl refl refl, where S = ?E and model = "''gemini-2.5-flash''"]
    g rE
  have 2: "chat_input_handler ?E ''gemini-2.5-flash'' (Some ?p) ?s =
      (Completed,
       ?s\<lparr>messages := messages ?s @ [\<lparr>role = ''user'', content = ?p\<rparr>]\<rparr>,
       [GenerateContent ''gemini-2.5-flash'' (Some system_prompt_text) 8000 (1 / 2)
          (History (map gemini_role (messages ?s @ [\<lparr>role = ''user'', content = ?p\<rparr>])))])"
    by blast
  from 1 2 show ?thesis by (simp add: gemini_role_def summary_message_def)
qed

end
